theory Spec2Isabelle
  imports Complex_Main "HOL-Library.Char_ord" "HOL-Library.List_Lexorder"
begin

section \<open>Data model\<close>

text \<open>
  A cell of a data frame, or a field value of a Customer Record: a JSON (or CSV) number or
  a string. Python's \<open>int\<close> and \<open>float\<close> compare numerically with each other
  (\<open>1.0 == 1\<close>, \<open>1.0 in [1, 2]\<close>), so one constructor stands for both; floating-point rounding is
  not modelled, numbers are exact reals.
\<close>

datatype cell = Num real | Str string

text \<open>
  A one-row \<open>pandas.DataFrame\<close>: column label to the value of the row. The source
  reads and writes columns by label only, never by position.
\<close>

type_synonym row = "string \<rightharpoonup> cell"

text \<open>Exceptions as values: the Python exception class with its message.\<close>

datatype error =
    KeyError string
  | ValueError string
  | AttributeError string
  | IndexError string
  | OtherError string

fun str_of :: "error \<Rightarrow> string" where
  "str_of (KeyError k) = [CHR 0x27] @ k @ [CHR 0x27]"
| "str_of (ValueError m) = m"
| "str_of (AttributeError m) = m"
| "str_of (IndexError m) = m"
| "str_of (OtherError m) = m"

text \<open>
  The two string-to-number conversions of the libraries are parameters of the model:
  \<open>pd_numeric\<close> is \<open>pandas.to_numeric(..., errors='coerce')\<close> on a string cell
  (\<open>None\<close>: the result is NaN), \<open>py_float\<close> is the conversion of a string cell
  to \<open>float64\<close> that \<open>StandardScaler.transform\<close> runs on its input
  (\<open>None\<close>: it raises \<open>ValueError\<close>).
\<close>

record pylib =
  pd_numeric :: "string \<Rightarrow> real option"
  py_float :: "string \<Rightarrow> real option"

subsection \<open>The artifacts\<close>

text \<open>
  A fitted \<open>sklearn.preprocessing.LabelEncoder\<close> is its \<open>classes_\<close>: the sorted
  distinct labels seen by \<open>fit\<close>. \<open>transform\<close> maps a label to its position in
  \<open>classes_\<close> and raises \<open>ValueError\<close> on a label that is not there.
\<close>

type_synonym label_encoder = "string list"

definition LabelEncoder_fit :: "string list \<Rightarrow> label_encoder" where
  "LabelEncoder_fit y = sort (remdups y)"

fun index_of :: "'a list \<Rightarrow> 'a \<Rightarrow> nat option" where
  "index_of [] y = None"
| "index_of (x # xs) y = (if x = y then Some 0 else map_option Suc (index_of xs y))"

definition LabelEncoder_transform :: "label_encoder \<Rightarrow> cell \<Rightarrow> error + cell" where
  "LabelEncoder_transform classes y =
     (case y of
        Str s \<Rightarrow>
          (case index_of classes s of
             Some i \<Rightarrow> Inr (Num (real i))
           | None \<Rightarrow> Inl (ValueError (''y contains previously unseen labels: '' @ s)))
      | Num x \<Rightarrow> Inl (ValueError ''y contains previously unseen labels''))"

text \<open>
  A fitted \<open>StandardScaler\<close>: per-feature \<open>mean_\<close> and \<open>scale_\<close>. \<open>transform\<close> converts
  its input to floats (a string that is not a number raises), checks the number of
  features, and standardises each position.
\<close>

record standard_scaler =
  sc_mean :: "real list"
  sc_scale :: "real list"

definition as_float :: "pylib \<Rightarrow> cell \<Rightarrow> error + real" where
  "as_float L c =
     (case c of
        Num x \<Rightarrow> Inr x
      | Str s \<Rightarrow>
          (case py_float L s of
             Some x \<Rightarrow> Inr x
           | None \<Rightarrow> Inl (ValueError (''could not convert string to float: '' @ s))))"

fun check_array :: "pylib \<Rightarrow> cell list \<Rightarrow> error + real list" where
  "check_array L [] = Inr []"
| "check_array L (c # cs) =
     (case as_float L c of
        Inl e \<Rightarrow> Inl e
      | Inr x \<Rightarrow> (case check_array L cs of Inl e \<Rightarrow> Inl e | Inr xs \<Rightarrow> Inr (x # xs)))"

definition scaler_transform :: "pylib \<Rightarrow> standard_scaler \<Rightarrow> cell list \<Rightarrow> error + real list" where
  "scaler_transform L sc X =
     (case check_array L X of
        Inl e \<Rightarrow> Inl e
      | Inr xs \<Rightarrow>
          if length xs = length (sc_mean sc)
          then Inr (map (\<lambda>(x, m, s). (x - m) / s) (zip xs (zip (sc_mean sc) (sc_scale sc))))
          else Inl (ValueError ''X has a different number of features than StandardScaler is expecting''))"

text \<open>
  The classifier is opaque: its type name, and \<open>predict\<close> and \<open>predict_proba\<close>
  on the one scaled row (the label and the probability row of that sample), either of
  which may raise.
\<close>

record classifier =
  clf_type_name :: string
  clf_predict :: "real list \<Rightarrow> error + int"
  clf_predict_proba :: "real list \<Rightarrow> error + real list"

text \<open>
  The process: the three module-level globals of \<open>app.py\<close> and what has been
  printed. \<open>model = None\<close>, \<open>label_encoders = {}\<close>, \<open>scaler = None\<close> at import.
  The dict \<open>label_encoders\<close> is an association list read with \<open>map_of\<close>.
\<close>

record process =
  model :: "classifier option"
  label_encoders :: "(string \<times> label_encoder) list"
  scaler :: "standard_scaler option"
  stdout :: "string list"

section \<open>app.py: preprocess_input\<close>

definition categorical_columns :: "string list" where
  "categorical_columns =
     [''gender'', ''Partner'', ''Dependents'', ''PhoneService'',
      ''MultipleLines'', ''InternetService'', ''OnlineSecurity'',
      ''OnlineBackup'', ''DeviceProtection'', ''TechSupport'',
      ''StreamingTV'', ''StreamingMovies'', ''Contract'',
      ''PaperlessBilling'', ''PaymentMethod'']"

definition service_columns :: "string list" where
  "service_columns =
     [''PhoneService'', ''OnlineSecurity'', ''OnlineBackup'',
      ''DeviceProtection'', ''TechSupport'', ''StreamingTV'',
      ''StreamingMovies'']"

definition feature_columns :: "string list" where
  "feature_columns =
     [''SeniorCitizen'', ''tenure'', ''MonthlyCharges'', ''TotalCharges'',
      ''gender'', ''Partner'', ''Dependents'', ''PhoneService'', ''MultipleLines'',
      ''InternetService'', ''OnlineSecurity'', ''OnlineBackup'', ''DeviceProtection'',
      ''TechSupport'', ''StreamingTV'', ''StreamingMovies'', ''Contract'',
      ''PaperlessBilling'', ''PaymentMethod'', ''NEW_Engaged'', ''NEW_TotalServices'']"

text \<open>
  The request body after \<open>request.get_json()\<close>: a JSON object (a dict, keys distinct,
  in insertion order), or any other JSON value, of which the handler only uses the
  truthiness. \<open>pd.DataFrame([data])\<close> of a dict has the dict's keys as columns; of
  any other value it has integer column labels, so no column named by a string.
\<close>

datatype json_body = JObject "(string \<times> cell) list" | JOther bool

definition DataFrame :: "json_body \<Rightarrow> row" where
  "DataFrame data = (case data of JObject kvs \<Rightarrow> map_of kvs | JOther b \<Rightarrow> Map.empty)"

text \<open>Lines 50-52: the encoding loop.\<close>

fun encode_columns :: "(string \<times> label_encoder) list \<Rightarrow> string list \<Rightarrow> row \<Rightarrow> error + row" where
  "encode_columns les [] df = Inr df"
| "encode_columns les (col # cols) df =
     (case df col of
        None \<Rightarrow> encode_columns les cols df
      | Some y \<Rightarrow>
          (case map_of les col of
             None \<Rightarrow> encode_columns les cols df
           | Some le \<Rightarrow>
               (case LabelEncoder_transform le y of
                  Inl e \<Rightarrow> Inl e
                | Inr c \<Rightarrow> encode_columns les cols (df(col \<mapsto> c)))))"

text \<open>
  Lines 55-56 (and lines 24-25 of \<open>model_training.py\<close>, row by row):
  \<open>pd.to_numeric(errors='coerce')\<close>, then \<open>fillna\<close> with the row's
  \<open>MonthlyCharges\<close>. Both columns are read whether or not a value is missing.
  The chained \<open>df['TotalCharges'].fillna(..., inplace=True)\<close> is taken to update the
  frame, as it does in pandas 1 and 2 and as the source relies on; under the copy-on-write
  of pandas 3 it would leave the frame as it was.
\<close>

definition to_numeric :: "pylib \<Rightarrow> cell \<Rightarrow> real option" where
  "to_numeric L c = (case c of Num x \<Rightarrow> Some x | Str s \<Rightarrow> pd_numeric L s)"

definition fill_total_charges :: "pylib \<Rightarrow> row \<Rightarrow> error + row" where
  "fill_total_charges L df =
     (case df ''TotalCharges'' of
        None \<Rightarrow> Inl (KeyError ''TotalCharges'')
      | Some t \<Rightarrow>
          (case df ''MonthlyCharges'' of
             None \<Rightarrow> Inl (KeyError ''MonthlyCharges'')
           | Some m \<Rightarrow>
               Inr (df(''TotalCharges'' \<mapsto>
                      (case to_numeric L t of Some x \<Rightarrow> Num x | None \<Rightarrow> m)))))"

text \<open>Line 59: \<open>1 if x in [1, 2] else 0\<close> on the (encoded) \<open>Contract\<close> column.\<close>

definition engaged_encoded :: "row \<Rightarrow> error + row" where
  "engaged_encoded df =
     (case df ''Contract'' of
        None \<Rightarrow> Inl (KeyError ''Contract'')
      | Some x \<Rightarrow>
          Inr (df(''NEW_Engaged'' \<mapsto> Num (if x = Num 1 \<or> x = Num 2 then 1 else 0))))"

text \<open>Lines 60-62: the number of the seven service columns equal to \<open>1\<close>.\<close>

definition total_services_encoded :: "row \<Rightarrow> error + row" where
  "total_services_encoded df =
     (if list_all (\<lambda>c. df c \<noteq> None) service_columns
      then Inr (df(''NEW_TotalServices'' \<mapsto>
                  Num (real (length (filter (\<lambda>c. df c = Some (Num 1)) service_columns)))))
      else Inl (KeyError ''service columns not in index''))"

text \<open>Lines 72-74: a feature column that is not in the frame is added with value 0.\<close>

fun ensure_columns :: "string list \<Rightarrow> row \<Rightarrow> row" where
  "ensure_columns [] df = df"
| "ensure_columns (col # cols) df =
     ensure_columns cols (if df col = None then df(col \<mapsto> Num 0) else df)"

text \<open>Line 76: \<open>X = df[feature_columns]\<close>.\<close>

fun select_columns :: "string list \<Rightarrow> row \<Rightarrow> error + cell list" where
  "select_columns [] df = Inr []"
| "select_columns (col # cols) df =
     (case df col of
        None \<Rightarrow> Inl (KeyError col)
      | Some v \<Rightarrow>
          (case select_columns cols df of Inl e \<Rightarrow> Inl e | Inr vs \<Rightarrow> Inr (v # vs)))"

text \<open>Lines 41-76: the feature row \<open>X\<close> handed to the scaler.\<close>

definition feature_row :: "pylib \<Rightarrow> (string \<times> label_encoder) list \<Rightarrow> json_body \<Rightarrow> error + cell list" where
  "feature_row L les data =
     (case encode_columns les categorical_columns (DataFrame data) of
        Inl e \<Rightarrow> Inl e
      | Inr df1 \<Rightarrow>
     (case fill_total_charges L df1 of
        Inl e \<Rightarrow> Inl e
      | Inr df2 \<Rightarrow>
     (case engaged_encoded df2 of
        Inl e \<Rightarrow> Inl e
      | Inr df3 \<Rightarrow>
     (case total_services_encoded df3 of
        Inl e \<Rightarrow> Inl e
      | Inr df4 \<Rightarrow> select_columns feature_columns (ensure_columns feature_columns df4)))))"

text \<open>Lines 79-81: \<open>scaler.transform(X)\<close>; \<open>scaler\<close> may still be \<open>None\<close>.\<close>

definition preprocess_body :: "pylib \<Rightarrow> process \<Rightarrow> json_body \<Rightarrow> error + real list" where
  "preprocess_body L st data =
     (case feature_row L (label_encoders st) data of
        Inl e \<Rightarrow> Inl e
      | Inr X \<Rightarrow>
          (case scaler st of
             None \<Rightarrow> Inl (AttributeError ''NoneType object has no attribute transform'')
           | Some sc \<Rightarrow> scaler_transform L sc X))"

text \<open>
  \<open>preprocess_input\<close>: the body under \<open>try\<close>; any exception is printed and the
  function returns \<open>None\<close>.
\<close>

definition preprocess_input :: "pylib \<Rightarrow> process \<Rightarrow> json_body \<Rightarrow> real list option \<times> process" where
  "preprocess_input L st data =
     (case preprocess_body L st data of
        Inr X_scaled \<Rightarrow> (Some X_scaled, st)
      | Inl e \<Rightarrow>
          (None, st\<lparr>stdout := stdout st @ [''Error in preprocessing: '' @ str_of e]\<rparr>))"

section \<open>app.py: the routes\<close>

datatype jvalue = JStr string | JBool bool | JInt int | JFloat real

type_synonym response = "nat \<times> (string \<times> jvalue) list"

text \<open>Python truthiness of what \<open>request.get_json()\<close> returned.\<close>

fun truthy :: "json_body option \<Rightarrow> bool" where
  "truthy None = False"
| "truthy (Some (JObject kvs)) = (kvs \<noteq> [])"
| "truthy (Some (JOther b)) = b"

text \<open>
  \<open>predict\<close>. The request is the outcome of \<open>request.get_json()\<close>: it raises, or
  returns \<open>None\<close> or a JSON value.
\<close>

definition predict :: "pylib \<Rightarrow> process \<Rightarrow> error + json_body option \<Rightarrow> response \<times> process" where
  "predict L st get_json =
     (case model st of
        None \<Rightarrow> ((500, [(''error'', JStr ''Model not loaded'')]), st)
      | Some m \<Rightarrow>
     (case get_json of
        Inl e \<Rightarrow> ((500, [(''error'', JStr (str_of e))]), st)
      | Inr data \<Rightarrow>
     (case (if truthy data then data else None) of
        None \<Rightarrow> ((400, [(''error'', JStr ''No data provided'')]), st)
      | Some d \<Rightarrow>
     (case preprocess_input L st d of
        (None, st') \<Rightarrow> ((400, [(''error'', JStr ''Error in data preprocessing'')]), st')
      | (Some X, st') \<Rightarrow>
     (case clf_predict m X of
        Inl e \<Rightarrow> ((500, [(''error'', JStr (str_of e))]), st')
      | Inr prediction \<Rightarrow>
     (case clf_predict_proba m X of
        Inl e \<Rightarrow> ((500, [(''error'', JStr (str_of e))]), st')
      | Inr probability \<Rightarrow>
          if length probability < 2
          then ((500, [(''error'', JStr (str_of (IndexError ''index 1 is out of bounds'')))]), st')
          else ((200, [(''prediction'', JInt prediction),
                       (''churn_probability'', JFloat (probability ! 1)),
                       (''no_churn_probability'', JFloat (probability ! 0)),
                       (''message'', JStr (if prediction = 1 then ''Customer will churn''
                                           else ''Customer will not churn''))]), st')))))))"

definition health_check :: "process \<Rightarrow> response \<times> process" where
  "health_check st =
     ((200, [(''status'', JStr ''healthy''), (''model_loaded'', JBool (model st \<noteq> None))]), st)"

definition model_info :: "process \<Rightarrow> response \<times> process" where
  "model_info st =
     (case model st of
        None \<Rightarrow> ((500, [(''error'', JStr ''Model not loaded'')]), st)
      | Some m \<Rightarrow>
          ((200, [(''model_type'', JStr (clf_type_name m)),
                  (''features'', JInt (int (length (remdups (map fst (label_encoders st)))))),
                  (''status'', JStr ''loaded'')]), st))"

text \<open>
  \<open>request.get_json()\<close>. A request with a JSON body gives the parsed value (\<open>None\<close> for
  the JSON \<open>null\<close>). A request without a body has nothing to parse: \<open>get_json\<close> raises
  (a \<open>BadRequest\<close>, or an \<open>UnsupportedMediaType\<close> when the content type is not JSON
  either); the handler only sees that an exception was raised and its message.
\<close>

datatype http_body = NoBody | JsonBody "json_body option"

definition get_json :: "http_body \<Rightarrow> error + json_body option" where
  "get_json b =
     (case b of
        NoBody \<Rightarrow> Inl (OtherError ''400 Bad Request: Failed to decode JSON object'')
      | JsonBody v \<Rightarrow> Inr v)"

section \<open>model_training.py\<close>

text \<open>
  The training frame is the list of its rows. A column operation of the source acts on
  every row alike; a column that is missing raises \<open>KeyError\<close>.
  The progress messages that the training functions print are left out.
\<close>

fun each_row :: "(row \<Rightarrow> error + row) \<Rightarrow> row list \<Rightarrow> error + row list" where
  "each_row f [] = Inr []"
| "each_row f (r # rs) =
     (case f r of
        Inl e \<Rightarrow> Inl e
      | Inr r' \<Rightarrow> (case each_row f rs of Inl e \<Rightarrow> Inl e | Inr rs' \<Rightarrow> Inr (r' # rs')))"

text \<open>Line 23: \<open>1 if x == 'Yes' else 0\<close> on \<open>Churn\<close>.\<close>

definition churn_label :: "row \<Rightarrow> error + row" where
  "churn_label r =
     (case r ''Churn'' of
        None \<Rightarrow> Inl (KeyError ''Churn'')
      | Some x \<Rightarrow> Inr (r(''Churn'' \<mapsto> Num (if x = Str ''Yes'' then 1 else 0))))"

text \<open>\<open>load_and_preprocess_data\<close>, from the frame that \<open>pd.read_csv\<close> returned.\<close>

definition load_and_preprocess_data :: "pylib \<Rightarrow> row list \<Rightarrow> error + row list" where
  "load_and_preprocess_data L csv =
     (case each_row churn_label csv of
        Inl e \<Rightarrow> Inl e
      | Inr df \<Rightarrow> each_row (fill_total_charges L) df)"

text \<open>Line 37: \<open>1 if x in ['One year','Two year'] else 0\<close> on the raw \<open>Contract\<close>.\<close>

definition engaged_raw :: "row \<Rightarrow> error + row" where
  "engaged_raw r =
     (case r ''Contract'' of
        None \<Rightarrow> Inl (KeyError ''Contract'')
      | Some x \<Rightarrow>
          Inr (r(''NEW_Engaged'' \<mapsto>
                 Num (if x = Str ''One year'' \<or> x = Str ''Two year'' then 1 else 0))))"

text \<open>Lines 38-40: the number of the seven service columns equal to \<open>'Yes'\<close>.\<close>

definition total_services_raw :: "row \<Rightarrow> error + row" where
  "total_services_raw r =
     (if list_all (\<lambda>c. r c \<noteq> None) service_columns
      then Inr (r(''NEW_TotalServices'' \<mapsto>
                  Num (real (length (filter (\<lambda>c. r c = Some (Str ''Yes'')) service_columns)))))
      else Inl (KeyError ''service columns not in index''))"

definition feature_engineering :: "row list \<Rightarrow> error + row list" where
  "feature_engineering df =
     (case each_row engaged_raw df of
        Inl e \<Rightarrow> Inl e
      | Inr df1 \<Rightarrow> each_row total_services_raw df1)"

section \<open>Reading a response\<close>

text \<open>
  Whether a response names a field: the field name occurs in one of the strings of the
  body.
\<close>

fun starts_with :: "string \<Rightarrow> string \<Rightarrow> bool" where
  "starts_with [] s = True"
| "starts_with (c # cs) [] = False"
| "starts_with (c # cs) (d # ds) = (c = d \<and> starts_with cs ds)"

fun occurs_in :: "string \<Rightarrow> string \<Rightarrow> bool" where
  "occurs_in w [] = (w = [])"
| "occurs_in w (d # ds) = (starts_with w (d # ds) \<or> occurs_in w ds)"

definition names_field :: "string \<Rightarrow> response \<Rightarrow> bool" where
  "names_field f r = list_ex (\<lambda>(k, v). case v of JStr s \<Rightarrow> occurs_in f s | _ \<Rightarrow> False) (snd r)"


section \<open>Example artifacts and records\<close>

text \<open>
  A library instance that reads unsigned decimal integers such as \<open>600\<close> and no other
  string; enough to run the examples, where the only other strings are labels and
  \<open>N/A\<close>.
\<close>

fun digit_of :: "char \<Rightarrow> nat option" where
  "digit_of c =
     (let n = of_char c :: nat in if 48 \<le> n \<and> n \<le> 57 then Some (n - 48) else None)"

fun digits_value :: "nat \<Rightarrow> string \<Rightarrow> nat option" where
  "digits_value acc [] = Some acc"
| "digits_value acc (c # cs) =
     (case digit_of c of None \<Rightarrow> None | Some d \<Rightarrow> digits_value (10 * acc + d) cs)"

definition decimal_string :: "string \<Rightarrow> real option" where
  "decimal_string s = (if s = [] then None else map_option real (digits_value 0 s))"

definition decimal_lib :: pylib where
  "decimal_lib = \<lparr>pd_numeric = decimal_string, py_float = decimal_string\<rparr>"

text \<open>
  The encoder table that training fits on the Telco vocabularies: one
  \<open>LabelEncoder\<close> per categorical column, fitted on the labels in the column.
\<close>

definition telco_encoders :: "(string \<times> label_encoder) list" where
  "telco_encoders =
     [(''gender'', LabelEncoder_fit [''Female'', ''Male'']),
      (''Partner'', LabelEncoder_fit [''Yes'', ''No'']),
      (''Dependents'', LabelEncoder_fit [''No'', ''Yes'']),
      (''PhoneService'', LabelEncoder_fit [''No'', ''Yes'']),
      (''MultipleLines'', LabelEncoder_fit [''No phone service'', ''No'', ''Yes'']),
      (''InternetService'', LabelEncoder_fit [''DSL'', ''Fiber optic'', ''No'']),
      (''OnlineSecurity'', LabelEncoder_fit [''No'', ''Yes'', ''No internet service'']),
      (''OnlineBackup'', LabelEncoder_fit [''Yes'', ''No'', ''No internet service'']),
      (''DeviceProtection'', LabelEncoder_fit [''No'', ''Yes'', ''No internet service'']),
      (''TechSupport'', LabelEncoder_fit [''No'', ''Yes'', ''No internet service'']),
      (''StreamingTV'', LabelEncoder_fit [''No'', ''Yes'', ''No internet service'']),
      (''StreamingMovies'', LabelEncoder_fit [''No'', ''Yes'', ''No internet service'']),
      (''Contract'', LabelEncoder_fit [''Month-to-month'', ''One year'', ''Two year'']),
      (''PaperlessBilling'', LabelEncoder_fit [''Yes'', ''No'']),
      (''PaymentMethod'', LabelEncoder_fit [''Electronic check'', ''Mailed check'',
         ''Bank transfer (automatic)'', ''Credit card (automatic)''])]"

text \<open>
  The same table when the training data holds no month-to-month customer: the
  \<open>Contract\<close> encoder is fitted on two labels.
\<close>

definition long_contract_encoders :: "(string \<times> label_encoder) list" where
  "long_contract_encoders =
     map (\<lambda>(col, le). if col = ''Contract'' then (col, LabelEncoder_fit [''Two year'', ''One year''])
                         else (col, le))
       telco_encoders"

text \<open>The table without an encoder for \<open>gender\<close>.\<close>

definition no_gender_encoders :: "(string \<times> label_encoder) list" where
  "no_gender_encoders = filter (\<lambda>(col, le). col \<noteq> ''gender'') telco_encoders"

definition unit_scaler :: standard_scaler where
  "unit_scaler = \<lparr>sc_mean = replicate 21 0, sc_scale = replicate 21 1\<rparr>"

definition churn_classifier :: classifier where
  "churn_classifier =
     \<lparr>clf_type_name = ''RandomForestClassifier'',
      clf_predict = (\<lambda>X. Inr 1),
      clf_predict_proba = (\<lambda>X. Inr [3 / 10, 7 / 10])\<rparr>"

definition loaded :: process where
  "loaded = \<lparr>model = Some churn_classifier, label_encoders = telco_encoders,
              scaler = Some unit_scaler, stdout = []\<rparr>"

text \<open>The process as it is at import, before \<open>load_model\<close>.\<close>

definition unloaded :: process where
  "unloaded = \<lparr>model = None, label_encoders = [], scaler = None, stdout = []\<rparr>"

text \<open>
  A complete Customer Record: \<open>TotalCharges\<close> is the string \<open>N/A\<close>, three of the seven
  services are \<open>Yes\<close>, the contract is \<open>One year\<close>.
\<close>

definition customer :: "(string \<times> cell) list" where
  "customer =
     [(''gender'', Str ''Male''), (''SeniorCitizen'', Num 0), (''Partner'', Str ''No''),
      (''Dependents'', Str ''No''), (''tenure'', Num 12), (''PhoneService'', Str ''Yes''),
      (''MultipleLines'', Str ''No''), (''InternetService'', Str ''DSL''),
      (''OnlineSecurity'', Str ''Yes''), (''OnlineBackup'', Str ''Yes''),
      (''DeviceProtection'', Str ''No''), (''TechSupport'', Str ''No''),
      (''StreamingTV'', Str ''No''), (''StreamingMovies'', Str ''No''),
      (''Contract'', Str ''One year''), (''PaperlessBilling'', Str ''Yes''),
      (''PaymentMethod'', Str ''Mailed check''), (''MonthlyCharges'', Num 70),
      (''TotalCharges'', Str ''N/A'')]"

text \<open>The same record with a \<open>gender\<close> outside the trained vocabulary.\<close>

definition unknown_gender :: "(string \<times> cell) list" where
  "unknown_gender =
     map (\<lambda>(k, v). if k = ''gender'' then (k, Str ''Robot'') else (k, v)) customer"

text \<open>The loaded process when the table has no encoder for \<open>gender\<close>.\<close>

definition no_gender_process :: process where
  "no_gender_process = loaded\<lparr>label_encoders := no_gender_encoders\<rparr>"

text \<open>The record of \<open>customer\<close> with \<open>gender\<close> sent as the number 1.\<close>

definition numeric_gender :: "(string \<times> cell) list" where
  "numeric_gender =
     map (\<lambda>(k, v). if k = ''gender'' then (k, Num 1) else (k, v)) customer"

text \<open>The record of \<open>tests/test_app.py\<close>: eleven fields, six service fields absent.\<close>

definition test_data :: "(string \<times> cell) list" where
  "test_data =
     [(''gender'', Str ''Male''), (''SeniorCitizen'', Num 0), (''Partner'', Str ''No''),
      (''Dependents'', Str ''No''), (''tenure'', Num 12), (''PhoneService'', Str ''Yes''),
      (''MultipleLines'', Str ''No''), (''InternetService'', Str ''DSL''),
      (''Contract'', Str ''Month-to-month''), (''MonthlyCharges'', Num 50),
      (''TotalCharges'', Num 600)]"

text \<open>A row of the training CSV with the fields of \<open>customer\<close>.\<close>

definition csv_row :: row where
  "csv_row = map_of ((''Churn'', Str ''No'') # customer)"

section \<open>The encoding loop\<close>

lemma index_of_None_iff: "index_of xs y = None \<longleftrightarrow> y \<notin> set xs"
  by (induction xs) auto

lemma LabelEncoder_transform_unseen:
  "y \<notin> Str ` set le \<Longrightarrow> \<exists>e. LabelEncoder_transform le y = Inl e"
  by (cases y) (auto simp: LabelEncoder_transform_def index_of_None_iff split: option.splits)

lemma index_of_Some:
  "index_of xs y = Some i \<Longrightarrow> i < length xs \<and> xs ! i = y"
  by (induction xs arbitrary: i) (auto split: if_splits)

lemma encode_columns_other:
  "encode_columns les cols df = Inr df' \<Longrightarrow> c \<notin> set cols \<Longrightarrow> df' c = df c"
  by (induction cols arbitrary: df) (auto split: option.splits sum.splits)

lemma encode_columns_no_encoder:
  "encode_columns les cols df = Inr df' \<Longrightarrow> map_of les c = None \<Longrightarrow> df' c = df c"
  by (induction cols arbitrary: df) (auto split: option.splits sum.splits)

lemma encode_columns_absent:
  "encode_columns les cols df = Inr df' \<Longrightarrow> df c = None \<Longrightarrow> df' c = None"
proof (induction cols arbitrary: df)
  case Nil
  then show ?case by simp
next
  case (Cons a cols)
  show ?case
  proof (cases "a = c")
    case True
    with Cons show ?thesis by simp
  next
    case False
    with Cons show ?thesis
      by (auto split: option.splits sum.splits)
  qed
qed

lemma encode_columns_unseen:
  "c \<in> set cols \<Longrightarrow> df c = Some y \<Longrightarrow> map_of les c = Some le \<Longrightarrow>
   LabelEncoder_transform le y = Inl e \<Longrightarrow> \<exists>e'. encode_columns les cols df = Inl e'"
proof (induction cols arbitrary: df)
  case Nil
  then show ?case by simp
next
  case (Cons a cols)
  show ?case
  proof (cases "a = c")
    case True
    with Cons.prems show ?thesis by simp
  next
    case False
    with Cons.prems have c: "c \<in> set cols" by simp
    show ?thesis
    proof (cases "df a")
      case None
      with Cons.IH [where df = df, OF c Cons.prems(2-4)] show ?thesis by simp
    next
      case (Some v)
      show ?thesis
      proof (cases "map_of les a")
        case None
        with Some Cons.IH [where df = df, OF c Cons.prems(2-4)] show ?thesis by simp
      next
        case (Some la)
        show ?thesis
        proof (cases "LabelEncoder_transform la v")
          case (Inl e1)
          with Some \<open>df a = Some v\<close> show ?thesis by simp
        next
          case (Inr w)
          from False Cons.prems(2) have "(df(a \<mapsto> w)) c = Some y" by simp
          then have "\<exists>e'. encode_columns les cols (df(a \<mapsto> w)) = Inl e'"
            using Cons.prems(3,4) by (intro Cons.IH [OF c])
          with Inr Some \<open>df a = Some v\<close> show ?thesis by simp
        qed
      qed
    qed
  qed
qed

section \<open>Assembling the feature row\<close>

lemma ensure_columns_apply:
  "ensure_columns cols df c = (if c \<in> set cols \<and> df c = None then Some (Num 0) else df c)"
  by (induction cols arbitrary: df) auto

lemma select_columns_present:
  "list_all (\<lambda>c. df c \<noteq> None) cols \<Longrightarrow> select_columns cols df = Inr (map (\<lambda>c. the (df c)) cols)"
  by (induction cols) auto

lemma select_ensure_columns:
  "select_columns cols (ensure_columns cols df) =
     Inr (map (\<lambda>c. case df c of None \<Rightarrow> Num 0 | Some v \<Rightarrow> v) cols)"
proof -
  have "list_all (\<lambda>c. ensure_columns cols df c \<noteq> None) cols"
    by (simp add: list_all_iff ensure_columns_apply)
  then have "select_columns cols (ensure_columns cols df) = Inr (map (\<lambda>c. the (ensure_columns cols df c)) cols)"
    by (rule select_columns_present)
  also have "map (\<lambda>c. the (ensure_columns cols df c)) cols = map (\<lambda>c. case df c of None \<Rightarrow> Num 0 | Some v \<Rightarrow> v) cols"
    by (rule map_cong) (auto simp: ensure_columns_apply split: option.splits)
  finally show ?thesis .
qed

lemma feature_row_Inr:
  assumes "feature_row L les data = Inr X"
  obtains df1 t m x where
    "encode_columns les categorical_columns (DataFrame data) = Inr df1"
    "df1 ''TotalCharges'' = Some t" "df1 ''MonthlyCharges'' = Some m" "df1 ''Contract'' = Some x"
    "list_all (\<lambda>c. df1 c \<noteq> None) service_columns"
    "X = map (\<lambda>c. case (df1(''TotalCharges'' \<mapsto> (case to_numeric L t of Some v \<Rightarrow> Num v | None \<Rightarrow> m),
                         ''NEW_Engaged'' \<mapsto> Num (if x = Num 1 \<or> x = Num 2 then 1 else 0),
                         ''NEW_TotalServices'' \<mapsto> Num (real (length (filter (\<lambda>c. df1 c = Some (Num 1)) service_columns))))) c
                   of None \<Rightarrow> Num 0 | Some v \<Rightarrow> v) feature_columns"
proof -
  from assms obtain df1 df2 df3 df4 where
    1: "encode_columns les categorical_columns (DataFrame data) = Inr df1" and
    2: "fill_total_charges L df1 = Inr df2" and
    3: "engaged_encoded df2 = Inr df3" and
    4: "total_services_encoded df3 = Inr df4" and
    5: "select_columns feature_columns (ensure_columns feature_columns df4) = Inr X"
    by (auto simp: feature_row_def split: sum.splits)
  from 2 obtain t m where t: "df1 ''TotalCharges'' = Some t" and m: "df1 ''MonthlyCharges'' = Some m"
    and df2: "df2 = df1(''TotalCharges'' \<mapsto> (case to_numeric L t of Some v \<Rightarrow> Num v | None \<Rightarrow> m))"
    by (auto simp: fill_total_charges_def split: option.splits)
  from 3 obtain x where x2: "df2 ''Contract'' = Some x"
    and df3: "df3 = df2(''NEW_Engaged'' \<mapsto> Num (if x = Num 1 \<or> x = Num 2 then 1 else 0))"
    by (auto simp: engaged_encoded_def split: option.splits)
  from x2 df2 have x: "df1 ''Contract'' = Some x" by simp
  from 4 have s3: "list_all (\<lambda>c. df3 c \<noteq> None) service_columns"
    and df4: "df4 = df3(''NEW_TotalServices'' \<mapsto> Num (real (length (filter (\<lambda>c. df3 c = Some (Num 1)) service_columns))))"
    by (auto simp: total_services_encoded_def split: if_splits)
  have same: "df3 c = df1 c" if "c \<in> set service_columns" for c
    using that by (auto simp: df3 df2 service_columns_def)
  from s3 same have s1: "list_all (\<lambda>c. df1 c \<noteq> None) service_columns"
    by (simp add: list_all_iff)
  from same have f: "filter (\<lambda>c. df3 c = Some (Num 1)) service_columns = filter (\<lambda>c. df1 c = Some (Num 1)) service_columns"
    by (intro filter_cong) auto
  from 5 have "X = map (\<lambda>c. case df4 c of None \<Rightarrow> Num 0 | Some v \<Rightarrow> v) feature_columns"
    by (simp add: select_ensure_columns)
  with df4 df3 df2 f have "X = map (\<lambda>c. case (df1(''TotalCharges'' \<mapsto> (case to_numeric L t of Some v \<Rightarrow> Num v | None \<Rightarrow> m),
                         ''NEW_Engaged'' \<mapsto> Num (if x = Num 1 \<or> x = Num 2 then 1 else 0),
                         ''NEW_TotalServices'' \<mapsto> Num (real (length (filter (\<lambda>c. df1 c = Some (Num 1)) service_columns))))) c
                   of None \<Rightarrow> Num 0 | Some v \<Rightarrow> v) feature_columns"
    by simp
  with 1 t m x s1 show thesis by (rule that)
qed

section \<open>Unknown categories\<close>

lemma telco_encoders_eval: "telco_encoders = 
[(''gender'', [''Female'', ''Male'']), (''Partner'', [''No'', ''Yes'']),
 (''Dependents'', [''No'', ''Yes'']), (''PhoneService'', [''No'', ''Yes'']),
 (''MultipleLines'', [''No'', ''No phone service'', ''Yes'']),
 (''InternetService'', [''DSL'', ''Fiber optic'', ''No'']),
 (''OnlineSecurity'', [''No'', ''No internet service'', ''Yes'']),
 (''OnlineBackup'', [''No'', ''No internet service'', ''Yes'']),
 (''DeviceProtection'', [''No'', ''No internet service'', ''Yes'']),
 (''TechSupport'', [''No'', ''No internet service'', ''Yes'']),
 (''StreamingTV'', [''No'', ''No internet service'', ''Yes'']),
 (''StreamingMovies'', [''No'', ''No internet service'', ''Yes'']),
 (''Contract'', [''Month-to-month'', ''One year'', ''Two year'']),
 (''PaperlessBilling'', [''No'', ''Yes'']),
 (''PaymentMethod'', [''Bank transfer (automatic)'', ''Credit card (automatic)'', ''Electronic check'', ''Mailed check''])]"
  by code_simp

lemma preprocess_input_None:
  "preprocess_body L st data = Inl e \<Longrightarrow>
   preprocess_input L st data = (None, st\<lparr>stdout := stdout st @ [''Error in preprocessing: '' @ str_of e]\<rparr>)"
  by (simp add: preprocess_input_def)

lemma preprocess_body_unseen:
  assumes "c \<in> set categorical_columns" "map_of kvs c = Some y"
    "map_of (label_encoders st) c = Some le" "y \<notin> Str ` set le"
  shows "\<exists>e. preprocess_body L st (JObject kvs) = Inl e"
proof -
  from assms(4) obtain e where "LabelEncoder_transform le y = Inl e"
    using LabelEncoder_transform_unseen by blast
  with assms(1-3) obtain e' where
    "encode_columns (label_encoders st) categorical_columns (DataFrame (JObject kvs)) = Inl e'"
    using encode_columns_unseen [of c categorical_columns "DataFrame (JObject kvs)" y "label_encoders st" le e]
    by (auto simp: DataFrame_def)
  then show ?thesis
    by (simp add: preprocess_body_def feature_row_def)
qed

lemma predict_preprocessing_failed:
  assumes "model st = Some m" "truthy (Some d)" "fst (preprocess_input L st d) = None"
  shows "fst (predict L st (Inr (Some d))) = (400, [(''error'', JStr ''Error in data preprocessing'')])"
  using assms by (cases "preprocess_input L st d") (simp add: predict_def)

text \<open>
  Claim C1, as amended. A record with a value outside the vocabulary of a categorical
  field that has an encoder makes \<open>preprocess_input\<close> return \<open>None\<close>: there is no
  error value and nothing carries the field name. With the model loaded,
  \<open>POST /predict\<close> answers 400 with the fixed body
  \<open>{'error': 'Error in data preprocessing'}\<close>.
\<close>

theorem unknown_category_rejected:
  assumes "model st = Some m" "c \<in> set categorical_columns" "map_of kvs c = Some y"
    "map_of (label_encoders st) c = Some le" "y \<notin> Str ` set le"
  shows "fst (preprocess_input L st (JObject kvs)) = None \<and>
         fst (predict L st (Inr (Some (JObject kvs)))) =
           (400, [(''error'', JStr ''Error in data preprocessing'')])"
proof -
  from assms(2-5) obtain e where "preprocess_body L st (JObject kvs) = Inl e"
    using preprocess_body_unseen by blast
  then have none: "fst (preprocess_input L st (JObject kvs)) = None"
    by (simp add: preprocess_input_None)
  from assms(3) have "kvs \<noteq> []" by auto
  then have "truthy (Some (JObject kvs))" by simp
  with assms(1) none show ?thesis
    by (simp add: predict_preprocessing_failed)
qed

theorem unknown_category_rejected_witness:
  "model loaded = Some churn_classifier \<and> ''gender'' \<in> set categorical_columns \<and>
   map_of unknown_gender ''gender'' = Some (Str ''Robot'') \<and>
   map_of (label_encoders loaded) ''gender'' = Some [''Female'', ''Male''] \<and>
   Str ''Robot'' \<notin> Str ` set [''Female'', ''Male''] \<and>
   fst (preprocess_input decimal_lib loaded (JObject unknown_gender)) = None \<and>
   fst (predict decimal_lib loaded (Inr (Some (JObject unknown_gender)))) =
     (400, [(''error'', JStr ''Error in data preprocessing'')])"
proof -
  have 1: "model loaded = Some churn_classifier" by (simp add: loaded_def)
  have 2: "''gender'' \<in> set categorical_columns" by (simp add: categorical_columns_def)
  have 3: "map_of unknown_gender ''gender'' = Some (Str ''Robot'')" by code_simp
  have 4: "map_of (label_encoders loaded) ''gender'' = Some [''Female'', ''Male'']"
    by (simp add: loaded_def telco_encoders_eval)
  have 5: "Str ''Robot'' \<notin> Str ` set [''Female'', ''Male'']" by simp
  from unknown_category_rejected [OF 1 2 3 4 5, of decimal_lib] 1 2 3 4 5 show ?thesis
    by blast
qed

text \<open>
  Claim C1 as stated fails: for an unknown \<open>gender\<close> the transform returns \<open>None\<close>, the
  printed line carries the label and not the field, and the 400 response does not name
  the field.
\<close>

theorem unknown_category_field_not_named:
  "map_of unknown_gender ''gender'' = Some (Str ''Robot'') \<and>
   map_of (label_encoders loaded) ''gender'' = Some [''Female'', ''Male''] \<and>
   preprocess_input decimal_lib loaded (JObject unknown_gender) =
     (None, loaded\<lparr>stdout := [''Error in preprocessing: y contains previously unseen labels: Robot'']\<rparr>) \<and>
   fst (predict decimal_lib loaded (Inr (Some (JObject unknown_gender)))) =
     (400, [(''error'', JStr ''Error in data preprocessing'')]) \<and>
   \<not> names_field ''gender'' (fst (predict decimal_lib loaded (Inr (Some (JObject unknown_gender)))))"
proof -
  have 3: "map_of unknown_gender ''gender'' = Some (Str ''Robot'')" by code_simp
  have 4: "map_of (label_encoders loaded) ''gender'' = Some [''Female'', ''Male'']"
    by (simp add: loaded_def telco_encoders_eval)
  have b: "preprocess_body decimal_lib loaded (JObject unknown_gender) =
      Inl (ValueError ''y contains previously unseen labels: Robot'')"
    by code_simp
  have p: "preprocess_input decimal_lib loaded (JObject unknown_gender) =
     (None, loaded\<lparr>stdout := [''Error in preprocessing: y contains previously unseen labels: Robot'']\<rparr>)"
    by (simp add: preprocess_input_None [OF b]) (simp add: loaded_def)
  have t: "truthy (Some (JObject unknown_gender))" by code_simp
  have r: "fst (predict decimal_lib loaded (Inr (Some (JObject unknown_gender)))) =
     (400, [(''error'', JStr ''Error in data preprocessing'')])"
    using p t by (simp add: predict_def loaded_def)
  have n: "\<not> names_field ''gender'' (400, [(''error'', JStr ''Error in data preprocessing'')])"
    by code_simp
  from 3 4 p r n show ?thesis by simp
qed

section \<open>Imputing TotalCharges\<close>

lemma feature_columns_nth:
  "feature_columns ! 2 = ''MonthlyCharges''" "feature_columns ! 3 = ''TotalCharges''"
  "feature_columns ! 19 = ''NEW_Engaged''" "feature_columns ! 20 = ''NEW_TotalServices''"
  "length feature_columns = 21"
  by (simp_all add: feature_columns_def)

lemma each_row_Inr:
  "each_row f rs = Inr rs' \<Longrightarrow> list_all2 (\<lambda>r r'. f r = Inr r') rs rs'"
  by (induction rs arbitrary: rs') (auto split: sum.splits)

lemma each_row_nth:
  assumes "each_row f rs = Inr rs'" "i < length rs"
  shows "f (rs ! i) = Inr (rs' ! i)"
  using each_row_Inr [OF assms(1)] assms(2) by (simp add: list_all2_conv_all_nth)

lemma churn_label_other:
  "churn_label r = Inr r' \<Longrightarrow> c \<noteq> ''Churn'' \<Longrightarrow> r' c = r c"
  by (auto simp: churn_label_def split: option.splits)

lemma fill_total_charges_unparsed:
  "df ''TotalCharges'' = Some t \<Longrightarrow> to_numeric L t = None \<Longrightarrow> df ''MonthlyCharges'' = Some m \<Longrightarrow>
   fill_total_charges L df = Inr (df(''TotalCharges'' \<mapsto> m))"
  by (simp add: fill_total_charges_def)

lemma feature_row_total_charges:
  assumes X: "feature_row L les (JObject kvs) = Inr X"
    and t: "map_of kvs ''TotalCharges'' = Some t" and m: "map_of kvs ''MonthlyCharges'' = Some m"
  shows "X ! 3 = (case to_numeric L t of Some v \<Rightarrow> Num v | None \<Rightarrow> m) \<and> X ! 2 = m"
proof -
  from X obtain df1 t' m' x where
    enc: "encode_columns les categorical_columns (DataFrame (JObject kvs)) = Inr df1" and
    t': "df1 ''TotalCharges'' = Some t'" and m': "df1 ''MonthlyCharges'' = Some m'" and
    Xeq: "X = map (\<lambda>c. case (df1(''TotalCharges'' \<mapsto> (case to_numeric L t' of Some v \<Rightarrow> Num v | None \<Rightarrow> m'),
                         ''NEW_Engaged'' \<mapsto> Num (if x = Num 1 \<or> x = Num 2 then 1 else 0),
                         ''NEW_TotalServices'' \<mapsto> Num (real (length (filter (\<lambda>c. df1 c = Some (Num 1)) service_columns))))) c
                   of None \<Rightarrow> Num 0 | Some v \<Rightarrow> v) feature_columns"
    by (rule feature_row_Inr)
  have "df1 ''TotalCharges'' = map_of kvs ''TotalCharges''"
    using encode_columns_other [OF enc, of "''TotalCharges''"]
    by (simp add: categorical_columns_def DataFrame_def)
  with t t' have tt: "t' = t" by simp
  have "df1 ''MonthlyCharges'' = map_of kvs ''MonthlyCharges''"
    using encode_columns_other [OF enc, of "''MonthlyCharges''"]
    by (simp add: categorical_columns_def DataFrame_def)
  with m m' have mm: "m' = m" by simp
  from m' mm have m1: "df1 ''MonthlyCharges'' = Some m" by simp
  show ?thesis
    unfolding Xeq tt mm by (simp add: feature_columns_nth m1)
qed

text \<open>
  Claim C2. When the raw \<open>TotalCharges\<close> of a record is not parseable as a number, the
  value used downstream is the record's \<open>MonthlyCharges\<close>: the two lines of the source
  put it in the \<open>TotalCharges\<close> column, the feature row of the serving path holds it
  at the position of \<open>TotalCharges\<close>, and the training path does the same in every row
  of the dataset. For \<open>N/A\<close> and 70.0 the value is 70.0.
\<close>

theorem total_charges_imputed:
  assumes "to_numeric L t = None"
  shows "(df ''TotalCharges'' = Some t \<and> df ''MonthlyCharges'' = Some m \<longrightarrow>
            fill_total_charges L df = Inr (df(''TotalCharges'' \<mapsto> m))) \<and>
         (map_of kvs ''TotalCharges'' = Some t \<and> map_of kvs ''MonthlyCharges'' = Some m \<and>
          feature_row L les (JObject kvs) = Inr X \<longrightarrow> X ! 3 = m) \<and>
         (i < length csv \<and> (csv ! i) ''TotalCharges'' = Some t \<and>
          (csv ! i) ''MonthlyCharges'' = Some m \<and>
          load_and_preprocess_data L csv = Inr frame \<longrightarrow> (frame ! i) ''TotalCharges'' = Some m)"
proof (intro conjI impI)
  assume "df ''TotalCharges'' = Some t \<and> df ''MonthlyCharges'' = Some m"
  with assms show "fill_total_charges L df = Inr (df(''TotalCharges'' \<mapsto> m))"
    by (simp add: fill_total_charges_unparsed)
next
  assume "map_of kvs ''TotalCharges'' = Some t \<and> map_of kvs ''MonthlyCharges'' = Some m \<and>
          feature_row L les (JObject kvs) = Inr X"
  with assms feature_row_total_charges [of L les kvs X t m] show "X ! 3 = m"
    by simp
next
  assume a: "i < length csv \<and> (csv ! i) ''TotalCharges'' = Some t \<and>
          (csv ! i) ''MonthlyCharges'' = Some m \<and> load_and_preprocess_data L csv = Inr frame"
  then obtain labelled where l: "each_row churn_label csv = Inr labelled"
    and f: "each_row (fill_total_charges L) labelled = Inr frame"
    by (auto simp: load_and_preprocess_data_def split: sum.splits)
  from a have i: "i < length csv" by simp
  from each_row_Inr [OF l] have len: "length labelled = length csv"
    by (simp add: list_all2_lengthD)
  from churn_label_other [OF each_row_nth [OF l i]] a have "(labelled ! i) ''TotalCharges'' = Some t" "(labelled ! i) ''MonthlyCharges'' = Some m"
    by simp_all
  with assms have "fill_total_charges L (labelled ! i) = Inr ((labelled ! i)(''TotalCharges'' \<mapsto> m))"
    by (simp add: fill_total_charges_unparsed)
  moreover from each_row_nth [OF f] i len
  have "fill_total_charges L (labelled ! i) = Inr (frame ! i)" by simp
  ultimately show "(frame ! i) ''TotalCharges'' = Some m" by auto
qed

lemma customer_feature_row:
  "feature_row decimal_lib telco_encoders (JObject customer) =
     Inr [Num 0, Num 12, Num 70, Num 70, Num 1, Num 0, Num 0, Num 1, Num 0, Num 0, Num 2,
          Num 2, Num 0, Num 0, Num 0, Num 0, Num 1, Num 1, Num 3, Num 1, Num 1]"
  by code_simp

lemma csv_row_columns:
  "csv_row ''Churn'' = Some (Str ''No'')" "csv_row ''TotalCharges'' = Some (Str ''N/A'')"
  "csv_row ''MonthlyCharges'' = Some (Num 70)" "csv_row ''Contract'' = Some (Str ''One year'')"
  by (simp_all add: csv_row_def customer_def)

theorem total_charges_imputed_witness:
  "to_numeric decimal_lib (Str ''N/A'') = None \<and>
   map_of customer ''TotalCharges'' = Some (Str ''N/A'') \<and>
   map_of customer ''MonthlyCharges'' = Some (Num 70) \<and>
   (\<exists>X. feature_row decimal_lib telco_encoders (JObject customer) = Inr X \<and> X ! 3 = Num 70) \<and>
   (\<exists>frame. load_and_preprocess_data decimal_lib [csv_row] = Inr frame \<and>
      (frame ! 0) ''TotalCharges'' = Some (Num 70))"
proof -
  have u: "to_numeric decimal_lib (Str ''N/A'') = None" by code_simp
  have t: "map_of customer ''TotalCharges'' = Some (Str ''N/A'')" by (simp add: customer_def)
  have m: "map_of customer ''MonthlyCharges'' = Some (Num 70)" by (simp add: customer_def)
  have l: "load_and_preprocess_data decimal_lib [csv_row] =
      Inr [(csv_row(''Churn'' \<mapsto> Num 0))(''TotalCharges'' \<mapsto> Num 70)]"
    by (simp add: load_and_preprocess_data_def churn_label_def csv_row_columns
        fill_total_charges_def u)
  from total_charges_imputed [OF u, of "map_of customer" "Num 70" customer telco_encoders
      "[Num 0, Num 12, Num 70, Num 70, Num 1, Num 0, Num 0, Num 1, Num 0, Num 0, Num 2,
          Num 2, Num 0, Num 0, Num 0, Num 0, Num 1, Num 1, Num 3, Num 1, Num 1]" 0 "[csv_row]"
      "[(csv_row(''Churn'' \<mapsto> Num 0))(''TotalCharges'' \<mapsto> Num 70)]"]
    u t m l customer_feature_row csv_row_columns
  show ?thesis by simp
qed

section \<open>The derived features\<close>

lemma csv_row_services:
  "list_all (\<lambda>c. csv_row c \<noteq> None) service_columns"
  "filter (\<lambda>c. csv_row c = Some (Str ''Yes'')) service_columns =
     [''PhoneService'', ''OnlineSecurity'', ''OnlineBackup'']"
  by (simp_all add: csv_row_def customer_def service_columns_def)

lemma csv_row_features:
  "feature_engineering [csv_row] =
     Inr [csv_row(''NEW_Engaged'' \<mapsto> Num 1, ''NEW_TotalServices'' \<mapsto> Num 3)]"
proof -
  have e: "engaged_raw csv_row = Inr (csv_row(''NEW_Engaged'' \<mapsto> Num 1))"
    by (simp add: engaged_raw_def csv_row_columns)
  have same: "(csv_row(''NEW_Engaged'' \<mapsto> Num 1)) c = csv_row c" if "c \<in> set service_columns" for c
    using that by (auto simp: service_columns_def)
  have 1: "list_all (\<lambda>c. (csv_row(''NEW_Engaged'' \<mapsto> Num 1)) c \<noteq> None) service_columns"
    using csv_row_services(1) same by (simp add: list_all_iff)
  have 2: "filter (\<lambda>c. (csv_row(''NEW_Engaged'' \<mapsto> Num 1)) c = Some (Str ''Yes'')) service_columns =
      filter (\<lambda>c. csv_row c = Some (Str ''Yes'')) service_columns"
    using same by (intro filter_cong) auto
  have s: "total_services_raw (csv_row(''NEW_Engaged'' \<mapsto> Num 1)) =
      Inr (csv_row(''NEW_Engaged'' \<mapsto> Num 1, ''NEW_TotalServices'' \<mapsto> Num 3))"
    unfolding total_services_raw_def 2 csv_row_services(2) using 1 by simp
  show ?thesis
    by (simp add: feature_engineering_def e s)
qed

lemma engaged_raw_other:
  "engaged_raw r = Inr r' \<Longrightarrow> c \<noteq> ''NEW_Engaged'' \<Longrightarrow> r' c = r c"
  by (auto simp: engaged_raw_def split: option.splits)

lemma engaged_raw_value:
  "engaged_raw r = Inr r' \<Longrightarrow> r ''Contract'' = Some x \<Longrightarrow>
   r' ''NEW_Engaged'' = Some (Num (if x = Str ''One year'' \<or> x = Str ''Two year'' then 1 else 0))"
  by (auto simp: engaged_raw_def split: option.splits)

lemma total_services_raw_other:
  "total_services_raw r = Inr r' \<Longrightarrow> c \<noteq> ''NEW_TotalServices'' \<Longrightarrow> r' c = r c"
  by (auto simp: total_services_raw_def split: if_splits)

lemma total_services_raw_value:
  "total_services_raw r = Inr r' \<Longrightarrow>
   r' ''NEW_TotalServices'' =
     Some (Num (real (length (filter (\<lambda>c. r c = Some (Str ''Yes'')) service_columns))))"
  by (auto simp: total_services_raw_def split: if_splits)

text \<open>
  The training path derives \<open>NEW_Engaged\<close> from the raw contract label, in every row.
\<close>

lemma training_engaged_raw_label:
  assumes "feature_engineering df = Inr df'" "i < length df" "(df ! i) ''Contract'' = Some x"
  shows "(df' ! i) ''NEW_Engaged'' =
           Some (Num (if x = Str ''One year'' \<or> x = Str ''Two year'' then 1 else 0))"
proof -
  from assms(1) obtain df1 where 1: "each_row engaged_raw df = Inr df1"
    and 2: "each_row total_services_raw df1 = Inr df'"
    by (auto simp: feature_engineering_def split: sum.splits)
  from each_row_Inr [OF 1] have len: "length df1 = length df"
    by (simp add: list_all2_lengthD)
  from each_row_nth [OF 1 assms(2)] assms(3)
  have e: "(df1 ! i) ''NEW_Engaged'' =
      Some (Num (if x = Str ''One year'' \<or> x = Str ''Two year'' then 1 else 0))"
    by (rule engaged_raw_value)
  from each_row_nth [OF 2] assms(2) len
  have "total_services_raw (df1 ! i) = Inr (df' ! i)" by simp
  then have "(df' ! i) ''NEW_Engaged'' = (df1 ! i) ''NEW_Engaged''"
    by (rule total_services_raw_other) simp
  with e show ?thesis by simp
qed

text \<open>
  The training path counts the service columns that hold the raw label \<open>Yes\<close>, in
  every row.
\<close>

lemma training_total_services_raw_label:
  assumes "feature_engineering df = Inr df'" "i < length df"
  shows "(df' ! i) ''NEW_TotalServices'' =
           Some (Num (real (length (filter (\<lambda>c. (df ! i) c = Some (Str ''Yes'')) service_columns))))"
proof -
  from assms(1) obtain df1 where 1: "each_row engaged_raw df = Inr df1"
    and 2: "each_row total_services_raw df1 = Inr df'"
    by (auto simp: feature_engineering_def split: sum.splits)
  from each_row_Inr [OF 1] have len: "length df1 = length df"
    by (simp add: list_all2_lengthD)
  have same: "(df1 ! i) c = (df ! i) c" if "c \<in> set service_columns" for c
    using that by (intro engaged_raw_other [OF each_row_nth [OF 1 assms(2)]])
      (auto simp: service_columns_def)
  then have f: "filter (\<lambda>c. (df1 ! i) c = Some (Str ''Yes'')) service_columns =
      filter (\<lambda>c. (df ! i) c = Some (Str ''Yes'')) service_columns"
    by (intro filter_cong) auto
  from each_row_nth [OF 2] assms(2) len
  have "total_services_raw (df1 ! i) = Inr (df' ! i)" by simp
  then have "(df' ! i) ''NEW_TotalServices'' =
      Some (Num (real (length (filter (\<lambda>c. (df1 ! i) c = Some (Str ''Yes'')) service_columns))))"
    by (rule total_services_raw_value)
  with f show ?thesis by simp
qed

text \<open>
  With the encoder fitted on the three Telco contract labels the codes 1 and 2 are those
  of \<open>One year\<close> and \<open>Two year\<close>: there the test of line 59 agrees with the test on the
  raw label.
\<close>

lemma telco_contract_codes:
  assumes "LabelEncoder_transform (LabelEncoder_fit [''Month-to-month'', ''One year'', ''Two year''])
             (Str s) = Inr c"
  shows "(c = Num 1 \<or> c = Num 2) \<longleftrightarrow> (s = ''One year'' \<or> s = ''Two year'')"
proof -
  have f: "LabelEncoder_fit [''Month-to-month'', ''One year'', ''Two year''] =
      [''Month-to-month'', ''One year'', ''Two year'']"
    by code_simp
  consider (m) "s = ''Month-to-month''" | (o) "s = ''One year''" | (t) "s = ''Two year''"
    | (n) "''Month-to-month'' \<noteq> s" "''One year'' \<noteq> s" "''Two year'' \<noteq> s"
    by blast
  then show ?thesis
  proof cases
    case m
    with assms show ?thesis
      unfolding f LabelEncoder_transform_def by auto
  next
    case o
    with assms show ?thesis
      unfolding f LabelEncoder_transform_def by auto
  next
    case t
    with assms show ?thesis
      unfolding f LabelEncoder_transform_def by auto
  next
    case n
    with assms show ?thesis
      unfolding f LabelEncoder_transform_def by auto
  qed
qed

lemma long_contract_feature_row:
  "feature_row decimal_lib long_contract_encoders (JObject customer) =
     Inr [Num 0, Num 12, Num 70, Num 70, Num 1, Num 0, Num 0, Num 1, Num 0, Num 0, Num 2,
          Num 2, Num 0, Num 0, Num 0, Num 0, Num 0, Num 1, Num 3, Num 0, Num 1]"
  by code_simp

text \<open>
  Claim C3 on the code. Training on data whose \<open>Contract\<close> column holds only
  \<open>One year\<close> and \<open>Two year\<close> gives \<open>One year\<close> the code 0. For a customer with a
  one-year contract the training path sets \<open>NEW_Engaged\<close> to 1, and the serving path,
  which tests the code against 1 and 2, sets it to 0.
\<close>

theorem serving_engaged_follows_codes:
  "LabelEncoder_fit [''Two year'', ''One year''] = [''One year'', ''Two year''] \<and>
   map_of long_contract_encoders ''Contract'' = Some [''One year'', ''Two year''] \<and>
   map_of customer ''Contract'' = Some (Str ''One year'') \<and>
   csv_row ''Contract'' = Some (Str ''One year'') \<and>
   (\<exists>r. feature_engineering [csv_row] = Inr [r] \<and> r ''NEW_Engaged'' = Some (Num 1)) \<and>
   feature_columns ! 19 = ''NEW_Engaged'' \<and>
   (\<exists>X. feature_row decimal_lib long_contract_encoders (JObject customer) = Inr X \<and>
        X ! 19 = Num 0)"
proof -
  have 1: "LabelEncoder_fit [''Two year'', ''One year''] = [''One year'', ''Two year'']"
    by code_simp
  have 2: "map_of long_contract_encoders ''Contract'' = Some [''One year'', ''Two year'']"
    by code_simp
  have 3: "map_of customer ''Contract'' = Some (Str ''One year'')"
    by (simp add: customer_def)
  show ?thesis
    by (simp add: 1 2 3 csv_row_columns csv_row_features long_contract_feature_row
        feature_columns_nth)
qed

text \<open>
  Claim C4 on the code. With the encoders fitted on the Telco vocabularies, \<open>Yes\<close>
  has the code 2 in the six internet service columns and \<open>No internet service\<close> has
  the code 1. For a customer with three services at \<open>Yes\<close> the training path sets
  \<open>NEW_TotalServices\<close> to 3, and the serving path, which counts the codes equal to 1,
  sets it to 1.
\<close>

theorem serving_total_services_counts_code_1:
  "map_of telco_encoders ''PhoneService'' = Some [''No'', ''Yes''] \<and>
   map_of telco_encoders ''OnlineSecurity'' = Some [''No'', ''No internet service'', ''Yes''] \<and>
   filter (\<lambda>c. map_of customer c = Some (Str ''Yes'')) service_columns =
     [''PhoneService'', ''OnlineSecurity'', ''OnlineBackup''] \<and>
   (\<exists>r. feature_engineering [csv_row] = Inr [r] \<and> r ''NEW_TotalServices'' = Some (Num 3)) \<and>
   feature_columns ! 20 = ''NEW_TotalServices'' \<and>
   (\<exists>X. feature_row decimal_lib telco_encoders (JObject customer) = Inr X \<and> X ! 20 = Num 1)"
proof -
  have 1: "filter (\<lambda>c. map_of customer c = Some (Str ''Yes'')) service_columns =
     [''PhoneService'', ''OnlineSecurity'', ''OnlineBackup'']"
    by (simp add: customer_def service_columns_def)
  have 2: "map_of telco_encoders ''PhoneService'' = Some [''No'', ''Yes'']"
    "map_of telco_encoders ''OnlineSecurity'' = Some [''No'', ''No internet service'', ''Yes'']"
    by (simp_all add: telco_encoders_eval)
  show ?thesis
    by (simp add: 1 2 csv_row_features customer_feature_row feature_columns_nth)
qed

section \<open>The feature row: length, order of the fields, absent fields\<close>

lemma feature_row_length:
  "feature_row L les data = Inr X \<Longrightarrow> length X = 21"
  by (erule feature_row_Inr) (simp add: feature_columns_nth)

text \<open>The order of the fields in the request object does not matter.\<close>

lemma feature_row_field_order:
  assumes "distinct (map fst kvs)" "distinct (map fst kvs')" "set kvs = set kvs'"
  shows "feature_row L les (JObject kvs) = feature_row L les (JObject kvs')"
proof -
  from assms have "map_of kvs = map_of kvs'"
    by (simp add: map_of_inject_set)
  then show ?thesis
    by (simp add: feature_row_def DataFrame_def)
qed

text \<open>
  A field that line 73 finds absent is 0 in the feature row. Only the columns that no
  earlier line reads can be absent there.
\<close>

lemma feature_row_default_zero:
  assumes "feature_row L les (JObject kvs) = Inr X" "map_of kvs c = None"
    "i < length feature_columns" "feature_columns ! i = c"
    "c \<noteq> ''TotalCharges''" "c \<noteq> ''NEW_Engaged''" "c \<noteq> ''NEW_TotalServices''"
  shows "X ! i = Num 0"
proof -
  from assms(1) obtain df1 t m x where
    enc: "encode_columns les categorical_columns (DataFrame (JObject kvs)) = Inr df1" and
    Xeq: "X = map (\<lambda>c. case (df1(''TotalCharges'' \<mapsto> (case to_numeric L t of Some v \<Rightarrow> Num v | None \<Rightarrow> m),
                         ''NEW_Engaged'' \<mapsto> Num (if x = Num 1 \<or> x = Num 2 then 1 else 0),
                         ''NEW_TotalServices'' \<mapsto> Num (real (length (filter (\<lambda>c. df1 c = Some (Num 1)) service_columns))))) c
                   of None \<Rightarrow> Num 0 | Some v \<Rightarrow> v) feature_columns"
    by (rule feature_row_Inr)
  from assms(2) have "df1 c = None"
    by (intro encode_columns_absent [OF enc]) (simp add: DataFrame_def)
  with assms(3-7) show ?thesis
    unfolding Xeq by simp
qed

text \<open>
  A record without \<open>TotalCharges\<close>, \<open>MonthlyCharges\<close>, \<open>Contract\<close> or one of the
  seven service fields has no feature row: lines 55 to 62 read these columns before
  line 73 would add them.
\<close>

lemma feature_row_required_field:
  assumes "map_of kvs c = None"
    "c \<in> {''TotalCharges'', ''MonthlyCharges'', ''Contract''} \<union> set service_columns"
  shows "\<exists>e. feature_row L les (JObject kvs) = Inl e"
proof (cases "feature_row L les (JObject kvs)")
  case (Inl e)
  then show ?thesis by blast
next
  case (Inr X)
  then obtain df1 t m x where
    enc: "encode_columns les categorical_columns (DataFrame (JObject kvs)) = Inr df1" and
    present: "df1 ''TotalCharges'' = Some t" "df1 ''MonthlyCharges'' = Some m"
      "df1 ''Contract'' = Some x" "list_all (\<lambda>c. df1 c \<noteq> None) service_columns"
    by (rule feature_row_Inr)
  from assms(1) have "df1 c = None"
    by (intro encode_columns_absent [OF enc]) (simp add: DataFrame_def)
  with present assms(2) have False
    by (auto simp: list_all_iff)
  then show ?thesis ..
qed

lemma test_data_body:
  "preprocess_body decimal_lib loaded (JObject test_data) =
     Inl (KeyError ''service columns not in index'')"
  by code_simp

text \<open>
  Claim C5 on the code. The record of \<open>tests/test_app.py\<close> has no
  \<open>OnlineSecurity\<close> field (and lacks eight more of the feature columns). The loop of
  lines 72 to 74 would set them to 0, but line 60 reads the service columns first and
  raises: the transform returns \<open>None\<close> and \<open>POST /predict\<close> answers 400, where the
  test expects 200.
\<close>

theorem absent_service_field_fails:
  "map_of test_data ''OnlineSecurity'' = None \<and>
   ''OnlineSecurity'' \<in> set feature_columns \<and>
   feature_row decimal_lib telco_encoders (JObject test_data) =
     Inl (KeyError ''service columns not in index'') \<and>
   fst (preprocess_input decimal_lib loaded (JObject test_data)) = None \<and>
   fst (predict decimal_lib loaded (Inr (Some (JObject test_data)))) =
     (400, [(''error'', JStr ''Error in data preprocessing'')])"
proof -
  have 1: "map_of test_data ''OnlineSecurity'' = None" by (simp add: test_data_def)
  have 2: "''OnlineSecurity'' \<in> set feature_columns" by (simp add: feature_columns_def)
  have 3: "feature_row decimal_lib telco_encoders (JObject test_data) =
     Inl (KeyError ''service columns not in index'')" by code_simp
  have 4: "fst (preprocess_input decimal_lib loaded (JObject test_data)) = None"
    by (simp add: preprocess_input_None [OF test_data_body])
  have m: "model loaded = Some churn_classifier" by (simp add: loaded_def)
  have t: "truthy (Some (JObject test_data))" by (simp add: test_data_def)
  from 1 2 3 4 predict_preprocessing_failed [OF m t 4] show ?thesis by simp
qed

section \<open>The routes\<close>






text \<open>
  Claim C7. \<open>GET /health\<close> always answers 200 with \<open>status\<close> \<open>healthy\<close> and a boolean
  \<open>model_loaded\<close> that is true exactly when the model is loaded, in every state of
  the process, which it leaves as it is.
\<close>

theorem health_check_always_healthy:
  "fst (fst (health_check st)) = 200 \<and>
   map_of (snd (fst (health_check st))) ''status'' = Some (JStr ''healthy'') \<and>
   map_of (snd (fst (health_check st))) ''model_loaded'' = Some (JBool (model st \<noteq> None)) \<and>
   snd (health_check st) = st"
  by (simp add: health_check_def)

theorem health_check_always_healthy_witness:
  "fst (fst (health_check unloaded)) = 200 \<and>
   map_of (snd (fst (health_check unloaded))) ''model_loaded'' = Some (JBool False) \<and>
   fst (fst (health_check loaded)) = 200 \<and>
   map_of (snd (fst (health_check loaded))) ''model_loaded'' = Some (JBool True)"
proof -
  have u: "model unloaded = None" by (simp add: unloaded_def)
  have l: "model loaded \<noteq> None" by (simp add: loaded_def)
  from health_check_always_healthy [of unloaded] health_check_always_healthy [of loaded] u l
  show ?thesis by simp
qed

section \<open>Purity\<close>

lemma preprocess_input_artifacts:
  "model (snd (preprocess_input L st d)) = model st"
  "label_encoders (snd (preprocess_input L st d)) = label_encoders st"
  "scaler (snd (preprocess_input L st d)) = scaler st"
  by (simp_all add: preprocess_input_def split: sum.splits)

lemma preprocess_body_artifacts:
  "label_encoders st' = label_encoders st \<Longrightarrow> scaler st' = scaler st \<Longrightarrow>
   preprocess_body L st' d = preprocess_body L st d"
  by (simp add: preprocess_body_def split: sum.splits)

lemma preprocess_input_result:
  "fst (preprocess_input L st d) =
     (case preprocess_body L st d of Inl e \<Rightarrow> None | Inr X \<Rightarrow> Some X)"
  by (simp add: preprocess_input_def split: sum.splits)

text \<open>
  Claim C8. Running the transform a second time, in the process as the first run left
  it, on the same record gives the same output: the result depends only on the record,
  the encoder table and the scaler, and a run changes none of them.
\<close>

theorem preprocess_input_deterministic:
  "fst (preprocess_input L (snd (preprocess_input L st d)) d) = fst (preprocess_input L st d)"
proof -
  have "preprocess_body L (snd (preprocess_input L st d)) d = preprocess_body L st d"
    by (rule preprocess_body_artifacts) (simp_all add: preprocess_input_artifacts)
  then show ?thesis
    by (simp add: preprocess_input_result)
qed

lemma predict_state:
  "snd (predict L st req) = st \<or> (\<exists>d. snd (predict L st req) = snd (preprocess_input L st d))"
proof (cases "model st")
  case None
  then show ?thesis by (simp add: predict_def)
next
  case (Some m)
  show ?thesis
  proof (cases req)
    case (Inl e)
    with Some show ?thesis by (simp add: predict_def)
  next
    case (Inr data)
    show ?thesis
    proof (cases "truthy data")
      case False
      with Some Inr show ?thesis by (simp add: predict_def)
    next
      case True
      then obtain d where d: "data = Some d" by (cases data) auto
      obtain r st' where p: "preprocess_input L st d = (r, st')"
        by (cases "preprocess_input L st d") auto
      then have "snd (preprocess_input L st d) = st'" by simp
      with Some Inr True d p have "snd (predict L st req) = snd (preprocess_input L st d)"
        by (auto simp: predict_def split: option.splits sum.splits)
      then show ?thesis by blast
    qed
  qed
qed

text \<open>
  Claim C9. A request on \<open>/predict\<close>, \<open>/health\<close> or \<open>/model_info\<close> leaves the three
  artifacts of the process as they were, for every state and every request.
\<close>

theorem routes_leave_artifacts:
  "model (snd (predict L st req)) = model st \<and>
   label_encoders (snd (predict L st req)) = label_encoders st \<and>
   scaler (snd (predict L st req)) = scaler st \<and>
   model (snd (health_check st)) = model st \<and>
   label_encoders (snd (health_check st)) = label_encoders st \<and>
   scaler (snd (health_check st)) = scaler st \<and>
   model (snd (model_info st)) = model st \<and>
   label_encoders (snd (model_info st)) = label_encoders st \<and>
   scaler (snd (model_info st)) = scaler st"
proof -
  from predict_state [of L st req]
  have "model (snd (predict L st req)) = model st \<and>
   label_encoders (snd (predict L st req)) = label_encoders st \<and>
   scaler (snd (predict L st req)) = scaler st"
    by (auto simp: preprocess_input_artifacts)
  moreover have "snd (health_check st) = st" by (simp add: health_check_def)
  moreover have "snd (model_info st) = st" by (simp add: model_info_def split: option.splits)
  ultimately show ?thesis by simp
qed

section \<open>Fields without an encoder\<close>

lemma categorical_columns_distinct: "distinct categorical_columns"
  by (simp add: categorical_columns_def)

lemma encode_columns_failure:
  assumes "encode_columns les cols df = Inl e" "distinct cols"
  shows "\<exists>c y le. c \<in> set cols \<and> df c = Some y \<and> map_of les c = Some le \<and>
           LabelEncoder_transform le y = Inl e"
  using assms
proof (induction cols arbitrary: df)
  case Nil
  then show ?case by simp
next
  case (Cons a cols)
  from Cons.prems(2) have da: "a \<notin> set cols" and dc: "distinct cols" by simp_all
  show ?case
  proof (cases "df a")
    case None
    with Cons.prems(1) have "encode_columns les cols df = Inl e" by simp
    from Cons.IH [OF this dc] show ?thesis by auto
  next
    case (Some v)
    show ?thesis
    proof (cases "map_of les a")
      case None
      with Some Cons.prems(1) have "encode_columns les cols df = Inl e" by simp
      from Cons.IH [OF this dc] show ?thesis by auto
    next
      case (Some la)
      show ?thesis
      proof (cases "LabelEncoder_transform la v")
        case (Inl e1)
        with Some \<open>df a = Some v\<close> Cons.prems(1) have "e1 = e" by simp
        with Inl Some \<open>df a = Some v\<close> show ?thesis by auto
      next
        case (Inr w)
        with Some \<open>df a = Some v\<close> Cons.prems(1)
        have "encode_columns les cols (df(a \<mapsto> w)) = Inl e" by simp
        from Cons.IH [OF this dc] obtain c y le where
          c: "c \<in> set cols" "(df(a \<mapsto> w)) c = Some y" "map_of les c = Some le"
            "LabelEncoder_transform le y = Inl e"
          by blast
        from c(1) da have "c \<noteq> a" by auto
        with c(2) have "df c = Some y" by simp
        with c show ?thesis by auto
      qed
    qed
  qed
qed

lemma categorical_not_derived:
  "c \<in> set categorical_columns \<Longrightarrow>
   c \<noteq> ''TotalCharges'' \<and> c \<noteq> ''NEW_Engaged'' \<and> c \<noteq> ''NEW_TotalServices''"
  by (auto simp: categorical_columns_def)

lemma check_array_Inr:
  "check_array L X = Inr xs \<Longrightarrow> list_all2 (\<lambda>c x. as_float L c = Inr x) X xs"
  by (induction X arbitrary: xs) (auto split: sum.splits)

lemma preprocess_input_Some:
  assumes "fst (preprocess_input L st d) = Some out"
  obtains X sc xs where
    "feature_row L (label_encoders st) d = Inr X" "scaler st = Some sc"
    "check_array L X = Inr xs" "length xs = length (sc_mean sc)"
    "out = map (\<lambda>(x, m, s). (x - m) / s) (zip xs (zip (sc_mean sc) (sc_scale sc)))"
proof -
  from assms have b: "preprocess_body L st d = Inr out"
    by (simp add: preprocess_input_def split: sum.splits)
  then obtain X where X: "feature_row L (label_encoders st) d = Inr X"
    by (auto simp: preprocess_body_def split: sum.splits)
  with b obtain sc where sc: "scaler st = Some sc" and t: "scaler_transform L sc X = Inr out"
    by (auto simp: preprocess_body_def split: option.splits)
  from t obtain xs where xs: "check_array L X = Inr xs"
    by (auto simp: scaler_transform_def split: sum.splits)
  with t have "length xs = length (sc_mean sc)"
    "out = map (\<lambda>(x, m, s). (x - m) / s) (zip xs (zip (sc_mean sc) (sc_scale sc)))"
    by (auto simp: scaler_transform_def split: if_splits)
  with X sc xs show thesis by (rule that)
qed

lemma categorical_is_feature:
  "c \<in> set categorical_columns \<Longrightarrow> c \<in> set feature_columns"
  by (auto simp: categorical_columns_def feature_columns_def)

lemma feature_row_raw_value:
  assumes "map_of les col = None" "col \<in> set categorical_columns" "map_of kvs col = Some v"
    "feature_row L les (JObject kvs) = Inr X" "i < length feature_columns"
    "feature_columns ! i = col"
  shows "X ! i = v"
proof -
  from assms(4) obtain df1 t m x where
    enc: "encode_columns les categorical_columns (DataFrame (JObject kvs)) = Inr df1" and
    Xeq: "X = map (\<lambda>c. case (df1(''TotalCharges'' \<mapsto> (case to_numeric L t of Some v \<Rightarrow> Num v | None \<Rightarrow> m),
                         ''NEW_Engaged'' \<mapsto> Num (if x = Num 1 \<or> x = Num 2 then 1 else 0),
                         ''NEW_TotalServices'' \<mapsto> Num (real (length (filter (\<lambda>c. df1 c = Some (Num 1)) service_columns))))) c
                   of None \<Rightarrow> Num 0 | Some v \<Rightarrow> v) feature_columns"
    by (rule feature_row_Inr)
  from encode_columns_no_encoder [OF enc assms(1)] assms(3) have v: "df1 col = Some v"
    by (simp add: DataFrame_def)
  from assms(2) categorical_not_derived [of col] have
    n: "col \<noteq> ''TotalCharges''" "col \<noteq> ''NEW_Engaged''" "col \<noteq> ''NEW_TotalServices''"
    by simp_all
  show "X ! i = v"
    unfolding Xeq using assms(5,6) n v by simp
qed

lemma raw_value_standardised:
  assumes none: "map_of (label_encoders st) col = None" and col: "col \<in> set categorical_columns"
    and v: "map_of kvs col = Some v"
    and out: "fst (preprocess_input L st (JObject kvs)) = Some out"
    and sc: "scaler st = Some sc"
    and i: "i < length out" "feature_columns ! i = col"
  shows "\<exists>x. as_float L v = Inr x \<and> out ! i = (x - sc_mean sc ! i) / sc_scale sc ! i"
proof -
  from out obtain X sc' xs where
    X: "feature_row L (label_encoders st) (JObject kvs) = Inr X" and sc': "scaler st = Some sc'" and
    xs: "check_array L X = Inr xs" and
    o: "out = map (\<lambda>(x, m, s). (x - m) / s) (zip xs (zip (sc_mean sc') (sc_scale sc')))"
    by (rule preprocess_input_Some)
  from sc sc' have s: "sc' = sc" by simp
  from check_array_Inr [OF xs] have lx: "length xs = length X"
    by (simp add: list_all2_lengthD)
  from i(1) have ix: "i < length xs" and im: "i < length (sc_mean sc)" and isc: "i < length (sc_scale sc)"
    unfolding o s by simp_all
  from ix lx feature_row_length [OF X] have i21: "i < length feature_columns"
    by (simp add: feature_columns_nth)
  from feature_row_raw_value [OF none col v X i21 i(2)] have Xi: "X ! i = v" .
  from check_array_Inr [OF xs] ix lx have "as_float L (X ! i) = Inr (xs ! i)"
    by (simp add: list_all2_conv_all_nth)
  with Xi have a: "as_float L v = Inr (xs ! i)" by simp
  from ix im isc have "out ! i = (xs ! i - sc_mean sc ! i) / sc_scale sc ! i"
    unfolding o s by simp
  with a show ?thesis by blast
qed

lemma raw_label_rejected:
  assumes none: "map_of (label_encoders st) col = None" and col: "col \<in> set categorical_columns"
    and v: "map_of kvs col = Some (Str s)" and s: "py_float L s = None"
  shows "fst (preprocess_input L st (JObject kvs)) = None"
proof (cases "fst (preprocess_input L st (JObject kvs))")
  case None
  then show ?thesis .
next
  case (Some out)
  then obtain X xs where
    X: "feature_row L (label_encoders st) (JObject kvs) = Inr X" and
    xs: "check_array L X = Inr xs"
    by (rule preprocess_input_Some)
  from categorical_is_feature [OF col] obtain i where
    i: "i < length feature_columns" "feature_columns ! i = col"
    by (auto simp: in_set_conv_nth)
  from feature_row_raw_value [OF none col v X i] have Xi: "X ! i = Str s" .
  from i(1) feature_row_length [OF X] have "i < length X"
    by (simp add: feature_columns_nth)
  with check_array_Inr [OF xs] have "as_float L (X ! i) = Inr (xs ! i)"
    by (simp add: list_all2_conv_all_nth)
  with Xi s have False
    by (simp add: as_float_def)
  then show ?thesis ..
qed

text \<open>
  Claim C10, as amended. A categorical field of the record that has no entry in the
  encoder table is not encoded and does not make the encoding loop fail: the loop leaves
  its raw value in the frame, a failure of the loop comes from another field, one that
  has an encoder and a label the encoder does not know, and the feature row holds the raw
  value at the position of the field. The scaler then standardises the raw value when it
  is a number, so that the output of the transform holds it unencoded; a raw label that
  is not a number makes \<open>scaler.transform\<close> raise, and the transform returns \<open>None\<close>.
\<close>

theorem field_without_encoder_passes_through:
  assumes "map_of (label_encoders st) col = None"
  shows "(encode_columns (label_encoders st) categorical_columns df = Inr df' \<longrightarrow>
            df' col = df col) \<and>
         (encode_columns (label_encoders st) categorical_columns df = Inl e \<longrightarrow>
            (\<exists>c y le. c \<in> set categorical_columns \<and> c \<noteq> col \<and> df c = Some y \<and>
               map_of (label_encoders st) c = Some le \<and> LabelEncoder_transform le y = Inl e)) \<and>
         (col \<in> set categorical_columns \<and> map_of kvs col = Some v \<and>
          feature_row L (label_encoders st) (JObject kvs) = Inr X \<and>
          i < length feature_columns \<and> feature_columns ! i = col \<longrightarrow> X ! i = v) \<and>
         (col \<in> set categorical_columns \<and> map_of kvs col = Some v \<and>
          fst (preprocess_input L st (JObject kvs)) = Some out \<and> scaler st = Some sc \<and>
          i < length out \<and> feature_columns ! i = col \<longrightarrow>
            (\<exists>x. as_float L v = Inr x \<and> out ! i = (x - sc_mean sc ! i) / sc_scale sc ! i)) \<and>
         (col \<in> set categorical_columns \<and> map_of kvs col = Some (Str s) \<and>
          py_float L s = None \<longrightarrow> fst (preprocess_input L st (JObject kvs)) = None)"
proof (intro conjI impI)
  assume "encode_columns (label_encoders st) categorical_columns df = Inr df'"
  from encode_columns_no_encoder [OF this assms] show "df' col = df col" .
next
  assume "encode_columns (label_encoders st) categorical_columns df = Inl e"
  from encode_columns_failure [OF this categorical_columns_distinct] obtain c y le where
    c: "c \<in> set categorical_columns" "df c = Some y" "map_of (label_encoders st) c = Some le"
      "LabelEncoder_transform le y = Inl e"
    by blast
  from c(3) assms have "c \<noteq> col" by auto
  with c show "\<exists>c y le. c \<in> set categorical_columns \<and> c \<noteq> col \<and> df c = Some y \<and>
               map_of (label_encoders st) c = Some le \<and> LabelEncoder_transform le y = Inl e"
    by blast
next
  assume "col \<in> set categorical_columns \<and> map_of kvs col = Some v \<and>
          feature_row L (label_encoders st) (JObject kvs) = Inr X \<and>
          i < length feature_columns \<and> feature_columns ! i = col"
  then have "col \<in> set categorical_columns" "map_of kvs col = Some v"
    "feature_row L (label_encoders st) (JObject kvs) = Inr X"
    "i < length feature_columns" "feature_columns ! i = col"
    by simp_all
  with assms show "X ! i = v"
    by (rule feature_row_raw_value)
next
  assume "col \<in> set categorical_columns \<and> map_of kvs col = Some v \<and>
          fst (preprocess_input L st (JObject kvs)) = Some out \<and> scaler st = Some sc \<and>
          i < length out \<and> feature_columns ! i = col"
  then have "col \<in> set categorical_columns" "map_of kvs col = Some v"
    "fst (preprocess_input L st (JObject kvs)) = Some out" "scaler st = Some sc"
    "i < length out" "feature_columns ! i = col"
    by simp_all
  with assms show "\<exists>x. as_float L v = Inr x \<and> out ! i = (x - sc_mean sc ! i) / sc_scale sc ! i"
    by (rule raw_value_standardised)
next
  assume "col \<in> set categorical_columns \<and> map_of kvs col = Some (Str s) \<and>
          py_float L s = None"
  then have "col \<in> set categorical_columns" "map_of kvs col = Some (Str s)"
    "py_float L s = None"
    by simp_all
  with assms show "fst (preprocess_input L st (JObject kvs)) = None"
    by (rule raw_label_rejected)
qed

lemma no_gender_feature_row:
  "feature_row decimal_lib no_gender_encoders (JObject customer) =
     Inr [Num 0, Num 12, Num 70, Num 70, Str ''Male'', Num 0, Num 0, Num 1, Num 0, Num 0,
          Num 2, Num 2, Num 0, Num 0, Num 0, Num 0, Num 1, Num 1, Num 3, Num 1, Num 1]"
  by code_simp

lemma no_gender_table:
  "map_of (label_encoders no_gender_process) ''gender'' = None"
  by code_simp

lemma numeric_gender_body:
  "preprocess_body decimal_lib no_gender_process (JObject numeric_gender) =
     Inr [0, 12, 70, 70, 1, 0, 0, 1, 0, 0, 2, 2, 0, 0, 0, 0, 1, 1, 3, 1, 1]"
  by code_simp

lemma customer_body:
  "preprocess_body decimal_lib loaded (JObject customer) =
     Inr [0, 12, 70, 70, 1, 0, 0, 1, 0, 0, 2, 2, 0, 0, 0, 0, 1, 1, 3, 1, 1]"
  by code_simp

lemma raw_label_at_scaler:
  "preprocess_body decimal_lib no_gender_process (JObject customer) =
     Inl (ValueError ''could not convert string to float: Male'')"
  by code_simp

theorem field_without_encoder_passes_through_witness:
  "map_of (label_encoders no_gender_process) ''gender'' = None \<and>
   ''gender'' \<in> set categorical_columns \<and>
   feature_columns ! 4 = ''gender'' \<and>
   map_of numeric_gender ''gender'' = Some (Num 1) \<and>
   scaler no_gender_process = Some unit_scaler \<and>
   as_float decimal_lib (Num 1) = Inr 1 \<and>
   (\<exists>out. fst (preprocess_input decimal_lib no_gender_process (JObject numeric_gender)) = Some out \<and>
      4 < length out \<and> out ! 4 = (1 - sc_mean unit_scaler ! 4) / sc_scale unit_scaler ! 4 \<and>
      out ! 4 = 1) \<and>
   map_of customer ''gender'' = Some (Str ''Male'') \<and>
   py_float decimal_lib ''Male'' = None \<and>
   (\<exists>X. feature_row decimal_lib no_gender_encoders (JObject customer) = Inr X \<and>
      X ! 4 = Str ''Male'') \<and>
   fst (preprocess_input decimal_lib no_gender_process (JObject customer)) = None"
proof -
  let ?out = "[0, 12, 70, 70, 1, 0, 0, 1, 0, 0, 2, 2, 0, 0, 0, 0, 1, 1, 3, 1, 1 :: real]"
  have 2: "''gender'' \<in> set categorical_columns" by (simp add: categorical_columns_def)
  have 3: "feature_columns ! 4 = ''gender''" by (simp add: feature_columns_def)
  have 4: "map_of numeric_gender ''gender'' = Some (Num 1)" by code_simp
  have 5: "scaler no_gender_process = Some unit_scaler"
    by (simp add: no_gender_process_def loaded_def)
  have 6: "fst (preprocess_input decimal_lib no_gender_process (JObject numeric_gender)) = Some ?out"
    by (simp add: preprocess_input_result numeric_gender_body)
  have 7: "map_of customer ''gender'' = Some (Str ''Male'')" by (simp add: customer_def)
  have 8: "py_float decimal_lib ''Male'' = None" by code_simp
  have a: "as_float decimal_lib (Num 1) = Inr 1" by (simp add: as_float_def)
  have len: "4 < length ?out" by simp
  have v: "?out ! 4 = 1" by simp
  note t = field_without_encoder_passes_through [OF no_gender_table]
  from t [of _ _ _ numeric_gender "Num 1" decimal_lib _ 4 ?out unit_scaler] 2 3 4 5 6 len
  have "\<exists>x. as_float decimal_lib (Num 1) = Inr x \<and>
      ?out ! 4 = (x - sc_mean unit_scaler ! 4) / sc_scale unit_scaler ! 4"
    by blast
  with a have o: "?out ! 4 = (1 - sc_mean unit_scaler ! 4) / sc_scale unit_scaler ! 4"
    by auto
  from t [of _ _ _ customer _ decimal_lib _ _ _ _ "''Male''"] 2 7 8
  have n: "fst (preprocess_input decimal_lib no_gender_process (JObject customer)) = None"
    by blast
  have x: "\<exists>X. feature_row decimal_lib no_gender_encoders (JObject customer) = Inr X \<and>
      X ! 4 = Str ''Male''"
    by (simp add: no_gender_feature_row)
  have y: "\<exists>out. fst (preprocess_input decimal_lib no_gender_process (JObject numeric_gender)) = Some out \<and>
      4 < length out \<and> out ! 4 = (1 - sc_mean unit_scaler ! 4) / sc_scale unit_scaler ! 4 \<and>
      out ! 4 = 1"
    using 6 len o v by blast
  from no_gender_table 2 3 4 5 a y 7 8 x n show ?thesis
    by blast
qed

text \<open>
  Claim C10 as stated fails. Without an encoder for \<open>gender\<close> the raw label \<open>Male\<close> of
  a customer reaches the scaler, which cannot convert it: the transform returns
  \<open>None\<close>. With the encoder the same record goes through.
\<close>

theorem field_without_encoder_fails_at_scaler:
  "map_of (label_encoders no_gender_process) ''gender'' = None \<and>
   map_of customer ''gender'' = Some (Str ''Male'') \<and>
   preprocess_body decimal_lib no_gender_process (JObject customer) =
     Inl (ValueError ''could not convert string to float: Male'') \<and>
   fst (preprocess_input decimal_lib no_gender_process (JObject customer)) = None \<and>
   fst (preprocess_input decimal_lib loaded (JObject customer)) =
     Some [0, 12, 70, 70, 1, 0, 0, 1, 0, 0, 2, 2, 0, 0, 0, 0, 1, 1, 3, 1, 1]"
proof -
  have 7: "map_of customer ''gender'' = Some (Str ''Male'')" by (simp add: customer_def)
  from no_gender_table 7 raw_label_at_scaler customer_body show ?thesis
    by (simp add: preprocess_input_result)
qed

end
